theory Spec2Isabelle
  imports Complex_Main
begin

section \<open>Shift compliance and coverage engine of the Pixlcat Sling API\<close>

text \<open>
  The engine lives in the Express server of the repository: the handler of
  \<^verbatim>\<open>POST /schedule/validate\<close>, \<^verbatim>\<open>findCoverage\<close>, \<^verbatim>\<open>getShiftTemplates\<close> and
  \<^verbatim>\<open>matchesTemplate\<close>. Instants are milliseconds since the epoch, as \<^verbatim>\<open>Date.getTime()\<close>
  gives them. Hours are exact rationals; the binary rounding of JavaScript doubles and the
  infinities are not modelled, \<^verbatim>\<open>NaN\<close> is \<open>None\<close>. Message texts of violations, warnings and
  reasons are rendering and are left out; rule codes, severities and numeric payloads are kept.
\<close>

subsection \<open>Calendar records, as \<^verbatim>\<open>getOrgCalendar\<close> builds them\<close>

type_synonym instant = int

record shift =
  s_employee :: string
  s_employeeId :: "int option"
  s_position :: "string option"
  s_location :: "string option"
  s_locationId :: "int option"
  s_start :: instant
  s_end :: instant

record leave =
  l_employeeId :: "int option"
  l_start :: instant
  l_end :: instant
  l_note :: string

record avail =
  a_employeeId :: "int option"
  a_start :: instant
  a_end :: instant
  a_fullDay :: bool

record calendar =
  shifts :: "shift list"
  leaves :: "leave list"
  availability :: "avail list"

record user =
  u_id :: int
  u_name :: string
  u_lname :: string

text \<open>\<^verbatim>\<open>duration: (new Date(s.dtend) - new Date(s.dtstart)) / (1000 * 60 * 60)\<close>\<close>

definition s_duration :: "shift \<Rightarrow> rat" where
  "s_duration s = of_int (s_end s - s_start s) / (1000 * 60 * 60)"

subsection \<open>The host: JavaScript runtime, clock, time zone and upstream provider\<close>

record hist =
  hist_avg :: rat
  hist_min :: rat
  hist_max :: rat
  hist_weeks :: nat

record dayRange =
  dr_start :: instant
  dr_end :: instant
  dr_isoDate :: string

text \<open>
  What the code takes from outside the repository is a parameter of the model.
  \<open>h_Number\<close> is \<^verbatim>\<open>Number(s)\<close> and \<open>h_parseInt\<close> is \<^verbatim>\<open>parseInt(s, 10)\<close>, with \<open>None\<close> for
  \<^verbatim>\<open>NaN\<close>. \<open>h_dateString\<close> numbers the civil days of the host's zone: two instants have the
  same \<^verbatim>\<open>toDateString()\<close> exactly when they have the same number, and
  \<^verbatim>\<open>d.setDate(d.getDate() + n)\<close> moves the number by \<open>n\<close>. \<open>h_setDate d n\<close> is that call,
  \<open>h_startOfDay\<close> is \<^verbatim>\<open>setHours(0, 0, 0, 0)\<close> and \<open>h_endOfDay\<close> is
  \<^verbatim>\<open>setHours(23, 59, 59, 999)\<close>. \<open>h_getDayRange\<close> is \<^verbatim>\<open>getDayRange\<close>, which rests on the
  clock and on the date parser of the runtime; it is \<open>None\<close> where \<^verbatim>\<open>toISOString()\<close> throws
  a RangeError on an invalid date. \<open>h_getOrgCalendar\<close> is the upstream fetch for a range,
  \<open>h_users\<close> is \<^verbatim>\<open>slingGet('/users')\<close>. \<open>h_historicalAvg\<close> is the table that
  \<^verbatim>\<open>getHistoricalAvgHours\<close> returns (weekly hours per employee over the trailing 28 days);
  it only feeds advisory warnings and notes and is taken as given.
\<close>

record host =
  h_Number :: "string \<Rightarrow> rat option"
  h_parseInt :: "string \<Rightarrow> int option"
  h_toLowerCase :: "string \<Rightarrow> string"
  h_trim :: "string \<Rightarrow> string"
  h_now :: instant
  h_nowPT :: instant
  h_getDayRange :: "string \<Rightarrow> dayRange option"
  h_getOrgCalendar :: "instant \<Rightarrow> instant \<Rightarrow> calendar"
  h_users :: "user list"
  h_historicalAvg :: "int \<Rightarrow> hist option"
  h_dateString :: "instant \<Rightarrow> int"
  h_getHours :: "instant \<Rightarrow> nat"
  h_getMinutes :: "instant \<Rightarrow> nat"
  h_getDay :: "instant \<Rightarrow> nat"
  h_setDate :: "instant \<Rightarrow> int \<Rightarrow> instant"
  h_startOfDay :: "instant \<Rightarrow> instant"
  h_endOfDay :: "instant \<Rightarrow> instant"

subsection \<open>Constants of the scheduling engine\<close>

definition CLEMENT :: int where "CLEMENT = 16124319"
definition NINTH :: int where "NINTH = 16128300"

definition LOCATION_NAMES :: "int \<Rightarrow> string option" where
  "LOCATION_NAMES l =
     (if l = CLEMENT then Some ''Clement Pixlcat''
      else if l = NINTH then Some ''9th st Pixlcat'' else None)"

text \<open>\<^verbatim>\<open>Object.entries(EMPLOYEE_NAMES)\<close> lists integer keys in ascending order.\<close>

definition EMPLOYEE_NAMES :: "(int \<times> string) list" where
  "EMPLOYEE_NAMES =
     [(12302285, ''David''), (13125426, ''Maya L''), (16159503, ''Jesus''),
      (16422126, ''Anya''), (16764426, ''Saige''), (19506789, ''James''),
      (19763164, ''Jeffrey''), (19838518, ''Hayden''), (21868029, ''Brianna''),
      (22563123, ''Jessica''), (22635995, ''Clayton''), (24605713, ''Emily''),
      (24949126, ''Sara''), (24950241, ''Otilia''), (24950518, ''Maya M'')]"

definition CROSS_LOCATION_POOL :: "int list" where
  "CROSS_LOCATION_POOL = [24949126, 21868029, 19506789, 24605713, 22635995, 12302285]"

definition MAX_WEEKLY_HOURS :: rat where "MAX_WEEKLY_HOURS = 40"
definition MAX_CONSECUTIVE_DAYS :: int where "MAX_CONSECUTIVE_DAYS = 7"
definition WARN_CONSECUTIVE_DAYS :: int where "WARN_CONSECUTIVE_DAYS = 6"

subsection \<open>Strings and request values\<close>

datatype jsval = JUndefined | JNum int | JStr string

fun truthy :: "jsval \<Rightarrow> bool" where
  "truthy JUndefined = False"
| "truthy (JNum n) = (n \<noteq> 0)"
| "truthy (JStr s) = (s \<noteq> [])"

definition truthyStr :: "string option \<Rightarrow> bool" where
  "truthyStr s = (case s of None \<Rightarrow> False | Some t \<Rightarrow> t \<noteq> [])"

fun startsWith :: "string \<Rightarrow> string \<Rightarrow> bool" where
  "startsWith s [] = True"
| "startsWith [] (c # cs) = False"
| "startsWith (x # xs) (c # cs) = (x = c \<and> startsWith xs cs)"

text \<open>\<^verbatim>\<open>s.includes(sub)\<close>\<close>

fun str_includes :: "string \<Rightarrow> string \<Rightarrow> bool" where
  "str_includes [] sub = (sub = [])"
| "str_includes (x # xs) sub = (startsWith (x # xs) sub \<or> str_includes xs sub)"

text \<open>\<^verbatim>\<open>(s.location || '').includes(sub)\<close>\<close>

definition locationIncludes :: "shift \<Rightarrow> string \<Rightarrow> bool" where
  "locationIncludes s sub = str_includes (case s_location s of None \<Rightarrow> [] | Some l \<Rightarrow> l) sub"

text \<open>\<^verbatim>\<open>t.split(':')\<close>: the pieces between the colons, at least one piece.\<close>

fun splitColon :: "string \<Rightarrow> string list" where
  "splitColon [] = [[]]"
| "splitColon (c # cs) =
     (if c = CHR '':'' then [] # splitColon cs
      else (case splitColon cs of [] \<Rightarrow> [[c]] | p # ps \<Rightarrow> (c # p) # ps))"

text \<open>
  \<^verbatim>\<open>const [h, m] = t.split(':').map(Number); h * 60 + (m || 0)\<close>: \<^verbatim>\<open>NaN\<close> when the hour
  is, while a missing, zero or \<^verbatim>\<open>NaN\<close> minute counts as 0.
\<close>

definition timeToMin :: "host \<Rightarrow> string \<Rightarrow> rat option" where
  "timeToMin h t =
     (case splitColon t of
        [] \<Rightarrow> None
      | hh # rest \<Rightarrow>
          (case h_Number h hh of
             None \<Rightarrow> None
           | Some sh \<Rightarrow>
               Some (sh * 60 +
                 (case rest of
                    [] \<Rightarrow> 0
                  | mm # _ \<Rightarrow> (case h_Number h mm of None \<Rightarrow> 0 | Some sm \<Rightarrow> sm)))))"

text \<open>\<^verbatim>\<open>Math.round(x * 100) / 100\<close>\<close>

definition round2 :: "rat \<Rightarrow> rat" where
  "round2 x = of_int \<lfloor>x * 100 + 1 / 2\<rfloor> / 100"

subsection \<open>Employee and location resolution\<close>

definition lookupName :: "host \<Rightarrow> string \<Rightarrow> int option" where
  "lookupName h s =
     (let lower = h_trim h (h_toLowerCase h s) in
      map_option fst (find (\<lambda>(i, nm). h_toLowerCase h nm = lower) EMPLOYEE_NAMES))"

fun resolveEmployeeId :: "host \<Rightarrow> jsval \<Rightarrow> int option" where
  "resolveEmployeeId h (JNum n) = Some n"
| "resolveEmployeeId h (JStr s) =
     (if h_Number h s \<noteq> None then h_parseInt h s else lookupName h s)"
| "resolveEmployeeId h JUndefined = lookupName h []"

text \<open>
  The body of the request, with the JSON types the API is called with: an employee id as a
  number or a string, a name as a string, a location as a name or an id, and the date and
  the two times as strings; \<open>None\<close> is a field left out.
\<close>

record request =
  employeeId :: jsval
  employee :: jsval
  date :: "string option"
  startTime :: "string option"
  endTime :: "string option"
  location :: jsval

text \<open>
  \<^verbatim>\<open>employeeId ? parseInt(employeeId, 10) : resolveEmployeeId(employee)\<close>; \<open>None\<close> is
  \<^verbatim>\<open>NaN\<close> or \<^verbatim>\<open>null\<close>.
\<close>

definition requestUserId :: "host \<Rightarrow> request \<Rightarrow> int option" where
  "requestUserId h req =
     (if truthy (employeeId req)
      then (case employeeId req of
              JNum n \<Rightarrow> Some n
            | JStr s \<Rightarrow> h_parseInt h s
            | JUndefined \<Rightarrow> None)
      else resolveEmployeeId h (employee req))"

definition targetLocation :: "host \<Rightarrow> jsval \<Rightarrow> int" where
  "targetLocation h loc =
     (if truthy loc
      then (case loc of
              JStr s \<Rightarrow> if str_includes (h_toLowerCase h s) ''9th'' then NINTH else CLEMENT
            | JNum n \<Rightarrow> n
            | JUndefined \<Rightarrow> CLEMENT)
      else CLEMENT)"

subsection \<open>Violations, warnings and the verdict\<close>

datatype severity = RED | ORANGE | YELLOW

datatype status = BLOCKED | NEEDS_APPROVAL | UNCONFIRMED | APPROVED

datatype payload = NoPayload | HoursPayload rat rat | DaysPayload int

record violation =
  rule :: string
  severity :: severity
  payload :: payload

record verdict =
  v_status :: status
  v_employeeId :: int
  v_date :: string
  v_location :: string
  v_violations :: "violation list"
  v_warnings :: "violation list"
  v_weeklyHours :: rat
  v_projectedHours :: "rat option"
  v_consecutiveDays :: int

datatype error = EmployeeNotFound | DateRequired | NoShiftFound | ServerError

subsection \<open>Gate 1: availability and leave\<close>

definition minuteOfDay :: "host \<Rightarrow> instant \<Rightarrow> int" where
  "minuteOfDay h t = int (h_getHours h t) * 60 + int (h_getMinutes h t)"

text \<open>A comparison with \<^verbatim>\<open>NaN\<close> is false.\<close>

definition geNum :: "rat option \<Rightarrow> int \<Rightarrow> bool" where
  "geNum x y = (case x of None \<Rightarrow> False | Some a \<Rightarrow> a \<ge> of_int y)"

definition leNum :: "rat option \<Rightarrow> int \<Rightarrow> bool" where
  "leNum x y = (case x of None \<Rightarrow> False | Some a \<Rightarrow> a \<le> of_int y)"

definition fitsWindow :: "host \<Rightarrow> rat option \<Rightarrow> rat option \<Rightarrow> avail \<Rightarrow> bool" where
  "fitsWindow h shiftStartMin shiftEndMin a =
     (geNum shiftStartMin (minuteOfDay h (a_start a)) \<and>
      leNum shiftEndMin (minuteOfDay h (a_end a)))"

definition gate1 ::
  "host \<Rightarrow> int \<Rightarrow> request \<Rightarrow> calendar \<Rightarrow> violation list \<times> violation list" where
  "gate1 h userId req dayCal =
     (let hasLeave = (find (\<lambda>l. l_employeeId l = Some userId) (leaves dayCal) \<noteq> None);
          leaveV = (if hasLeave
                    then [\<lparr>rule = ''LEAVE-001'', severity = RED, payload = NoPayload\<rparr>]
                    else []);
          empAvails = filter (\<lambda>a. a_employeeId a = Some userId) (availability dayCal)
      in if length empAvails > 0 \<and> truthyStr (startTime req) \<and> truthyStr (endTime req)
         then (if \<not> list_ex a_fullDay empAvails
               then (let shiftStartMin = timeToMin h (the (startTime req));
                         shiftEndMin = timeToMin h (the (endTime req));
                         fitsAny = list_ex (fitsWindow h shiftStartMin shiftEndMin) empAvails
                     in if \<not> fitsAny
                        then (leaveV @
                                [\<lparr>rule = ''AVAIL-001'', severity = RED, payload = NoPayload\<rparr>],
                              [])
                        else (leaveV, []))
               else (leaveV, []))
         else if length empAvails = 0 \<and> \<not> hasLeave
         then (leaveV,
               [\<lparr>rule = ''AVAIL-FALLBACK'', severity = YELLOW, payload = NoPayload\<rparr>])
         else (leaveV, []))"

subsection \<open>Gate 2: cross-location\<close>

text \<open>\<^verbatim>\<open>targetLocId === LOCATIONS.CLEMENT ? LOCATIONS.NINTH : LOCATIONS.CLEMENT\<close>\<close>

definition otherLocation :: "int \<Rightarrow> int" where
  "otherLocation targetLocId = (if targetLocId = CLEMENT then NINTH else CLEMENT)"

definition gate2 :: "int \<Rightarrow> int \<Rightarrow> calendar \<Rightarrow> violation list" where
  "gate2 userId targetLocId dayCal =
     (if userId \<in> set CROSS_LOCATION_POOL
      then (let otherLocId = otherLocation targetLocId;
                otherLocShift =
                  find (\<lambda>s. s_employeeId s = Some userId \<and>
                             (s_locationId s = Some otherLocId \<or>
                              (otherLocId = NINTH \<and> locationIncludes s ''9th'') \<or>
                              (otherLocId = CLEMENT \<and> locationIncludes s ''Clement'')))
                       (shifts dayCal)
            in if otherLocShift \<noteq> None
               then [\<lparr>rule = ''XLOC-001'', severity = RED, payload = NoPayload\<rparr>]
               else [])
      else [])"

subsection \<open>Gate 3: weekly hours\<close>

text \<open>
  \<^verbatim>\<open>getWeekRange\<close>: Monday 00:00 to Sunday 23:59:59.999 around the start of the day range;
  with no date, around the present.
\<close>

definition getWeekRange :: "host \<Rightarrow> string \<Rightarrow> (instant \<times> instant) option" where
  "getWeekRange h dateStr =
     (case (if dateStr \<noteq> [] then map_option dr_start (h_getDayRange h dateStr)
            else Some (h_nowPT h)) of
        None \<Rightarrow> None
      | Some center \<Rightarrow>
          (let day = int (h_getDay h center);
               monday = h_startOfDay h (h_setDate h center (- (if day = 0 then 6 else day - 1)));
               sunday = h_endOfDay h (h_setDate h monday 6)
           in Some (monday, sunday)))"

text \<open>\<^verbatim>\<open>s.duration || (new Date(s.end) - new Date(s.start)) / 3600000\<close>\<close>

definition shiftHoursOf :: "shift \<Rightarrow> rat" where
  "shiftHoursOf s =
     (if s_duration s \<noteq> 0 then s_duration s else of_int (s_end s - s_start s) / 3600000)"

definition weeklyHoursOf :: "int \<Rightarrow> calendar \<Rightarrow> rat" where
  "weeklyHoursOf userId weekCal =
     foldl (\<lambda>sum s. sum + shiftHoursOf s) 0
       (filter (\<lambda>s. s_employeeId s = Some userId) (shifts weekCal))"

definition proposedHoursOf :: "host \<Rightarrow> request \<Rightarrow> rat option" where
  "proposedHoursOf h req =
     (if truthyStr (startTime req) \<and> truthyStr (endTime req)
      then (case (timeToMin h (the (endTime req)), timeToMin h (the (startTime req))) of
              (Some e, Some s) \<Rightarrow> Some ((e - s) / 60)
            | _ \<Rightarrow> None)
      else Some 0)"

definition projectedHoursOf :: "rat \<Rightarrow> rat option \<Rightarrow> rat option" where
  "projectedHoursOf weeklyHours proposedHours = map_option (\<lambda>p. weeklyHours + p) proposedHours"

definition gate3 :: "rat \<Rightarrow> rat option \<Rightarrow> violation list" where
  "gate3 weeklyHours projectedHours =
     (case projectedHours of
        None \<Rightarrow> []
      | Some p \<Rightarrow>
          if p > MAX_WEEKLY_HOURS
          then [\<lparr>rule = ''HOURS-001'', severity = ORANGE,
                 payload = HoursPayload (round2 weeklyHours) (round2 p)\<rparr>]
          else [])"

subsection \<open>Gate 4: consecutive days\<close>

text \<open>
  The two \<^verbatim>\<open>while (true)\<close> loops walk from the target day backwards and forwards as long
  as the day is in \<^verbatim>\<open>workDates\<close>. The set is finite, so both stop.
\<close>

function walkBack :: "int list \<Rightarrow> int \<Rightarrow> int \<Rightarrow> int" where
  "walkBack workDates checkDate streak =
     (if checkDate - 1 \<in> set workDates
      then walkBack workDates (checkDate - 1) (streak + 1)
      else streak)"
  by pat_completeness auto
termination
proof (relation "measure (\<lambda>(ws, d, k). nat (d - Min (set ws)))")
  show "wf (measure (\<lambda>(ws, d, k). nat (d - Min (set ws))))" by simp
next
  fix workDates :: "int list" and checkDate streak :: int
  assume "checkDate - 1 \<in> set workDates"
  then have "Min (set workDates) \<le> checkDate - 1" by (intro Min_le) simp_all
  then have "nat (checkDate - 1 - Min (set workDates)) < nat (checkDate - Min (set workDates))"
    by linarith
  then show "((workDates, checkDate - 1, streak + 1), (workDates, checkDate, streak))
               \<in> measure (\<lambda>(ws, d, k). nat (d - Min (set ws)))"
    unfolding in_measure by (simp only: prod.case)
qed

function walkForward :: "int list \<Rightarrow> int \<Rightarrow> int \<Rightarrow> int" where
  "walkForward workDates checkDate streak =
     (if checkDate + 1 \<in> set workDates
      then walkForward workDates (checkDate + 1) (streak + 1)
      else streak)"
  by pat_completeness auto
termination
proof (relation "measure (\<lambda>(ws, d, k). nat (Max (set ws) - d))")
  show "wf (measure (\<lambda>(ws, d, k). nat (Max (set ws) - d)))" by simp
next
  fix workDates :: "int list" and checkDate streak :: int
  assume "checkDate + 1 \<in> set workDates"
  then have "checkDate + 1 \<le> Max (set workDates)" by (intro Max_ge) simp_all
  then have "nat (Max (set workDates) - (checkDate + 1)) < nat (Max (set workDates) - checkDate)"
    by linarith
  then show "((workDates, checkDate + 1, streak + 1), (workDates, checkDate, streak))
               \<in> measure (\<lambda>(ws, d, k). nat (Max (set ws) - d))"
    unfolding in_measure by (simp only: prod.case)
qed

declare walkBack.simps [simp del]
declare walkForward.simps [simp del]

text \<open>The civil days on which the employee has a shift in a calendar.\<close>

definition shiftDaysOf :: "host \<Rightarrow> int \<Rightarrow> calendar \<Rightarrow> int list" where
  "shiftDaysOf h userId cal =
     map (\<lambda>s. h_dateString h (s_start s))
       (filter (\<lambda>s. s_employeeId s = Some userId) (shifts cal))"

text \<open>\<^verbatim>\<open>workDates\<close>: those days and the target day.\<close>

definition workDatesOf :: "host \<Rightarrow> int \<Rightarrow> calendar \<Rightarrow> instant \<Rightarrow> int list" where
  "workDatesOf h userId streakCal start =
     shiftDaysOf h userId streakCal @ [h_dateString h start]"

definition streakOf :: "host \<Rightarrow> int \<Rightarrow> calendar \<Rightarrow> instant \<Rightarrow> int" where
  "streakOf h userId streakCal start =
     (let workDates = workDatesOf h userId streakCal start;
          streak = walkBack workDates (h_dateString h start) 1
      in walkForward workDates (h_dateString h start) streak)"

definition gate4 :: "int \<Rightarrow> violation list" where
  "gate4 streak =
     (if streak \<ge> MAX_CONSECUTIVE_DAYS
      then [\<lparr>rule = ''CONSEC-001'', severity = RED, payload = DaysPayload streak\<rparr>]
      else if streak \<ge> WARN_CONSECUTIVE_DAYS
      then [\<lparr>rule = ''CONSEC-002'', severity = ORANGE, payload = DaysPayload streak\<rparr>]
      else [])"

subsection \<open>The handler of \<^verbatim>\<open>POST /schedule/validate\<close>\<close>

definition resolveStatus :: "violation list \<Rightarrow> violation list \<Rightarrow> status" where
  "resolveStatus violations warnings =
     (let redV = filter (\<lambda>v. severity v = RED) violations;
          orangeV = filter (\<lambda>v. severity v = ORANGE) violations
      in if length redV > 0 then BLOCKED
         else if length orangeV > 0 then NEEDS_APPROVAL
         else if length warnings > 0 then UNCONFIRMED
         else APPROVED)"

text \<open>
  The three \<^verbatim>\<open>getOrgCalendar\<close> results of the handler: the day, the week and the days from
  8 before to 8 after.
\<close>

definition dayCalOf :: "host \<Rightarrow> dayRange \<Rightarrow> calendar" where
  "dayCalOf h r = h_getOrgCalendar h (dr_start r) (dr_end r)"

definition weekCalOf :: "host \<Rightarrow> instant \<times> instant \<Rightarrow> calendar" where
  "weekCalOf h week = h_getOrgCalendar h (fst week) (snd week)"

definition streakCalOf :: "host \<Rightarrow> dayRange \<Rightarrow> calendar" where
  "streakCalOf h r =
     h_getOrgCalendar h (h_setDate h (dr_start r) (- 8)) (h_setDate h (dr_start r) 8)"

text \<open>The four gates on a resolved employee and day range.\<close>

definition runGates :: "host \<Rightarrow> int \<Rightarrow> dayRange \<Rightarrow> instant \<times> instant \<Rightarrow> request \<Rightarrow> verdict" where
  "runGates h userId r week req =
     (let start = dr_start r;
          targetLocId = targetLocation h (location req);
          dayCal = dayCalOf h r;
          g1 = gate1 h userId req dayCal;
          g2 = gate2 userId targetLocId dayCal;
          weekCal = weekCalOf h week;
          weeklyHours = weeklyHoursOf userId weekCal;
          projectedHours = projectedHoursOf weeklyHours (proposedHoursOf h req);
          g3 = gate3 weeklyHours projectedHours;
          streakCal = streakCalOf h r;
          streak = streakOf h userId streakCal start;
          violations = fst g1 @ g2 @ g3 @ gate4 streak;
          warnings = snd g1
      in \<lparr>v_status = resolveStatus violations warnings,
          v_employeeId = userId,
          v_date = dr_isoDate r,
          v_location = (case LOCATION_NAMES targetLocId of None \<Rightarrow> ''Unknown'' | Some n \<Rightarrow> n),
          v_violations = violations,
          v_warnings = warnings,
          v_weeklyHours = round2 weeklyHours,
          v_projectedHours = map_option round2 projectedHours,
          v_consecutiveDays = streak\<rparr>)"

text \<open>
  The handler: HTTP 400 for an employee that resolves to nothing and for a missing date,
  HTTP 500 (the \<^verbatim>\<open>catch\<close>) when \<^verbatim>\<open>getDayRange\<close> throws, else the verdict.
\<close>

definition validate :: "host \<Rightarrow> request \<Rightarrow> error + verdict" where
  "validate h req =
     (case requestUserId h req of
        None \<Rightarrow> Inl EmployeeNotFound
      | Some userId \<Rightarrow>
          if userId = 0 then Inl EmployeeNotFound
          else if \<not> truthyStr (date req) then Inl DateRequired
          else (case h_getDayRange h (the (date req)) of
                  None \<Rightarrow> Inl ServerError
                | Some r \<Rightarrow>
                    (case getWeekRange h (dr_isoDate r) of
                       None \<Rightarrow> Inl ServerError
                     | Some week \<Rightarrow> Inr (runGates h userId r week req))))"

subsection \<open>Shift templates\<close>

text \<open>The decimal digits of a number, as a template literal prints it.\<close>

fun showNat :: "nat \<Rightarrow> string" where
  "showNat n =
     (if n < 10 then [''0123456789'' ! n]
      else showNat (n div 10) @ [''0123456789'' ! (n mod 10)])"

declare showNat.simps [simp del]

text \<open>\<^verbatim>\<open>`${d.getHours()}:${String(d.getMinutes()).padStart(2, '0')}`\<close>\<close>

definition padStart2 :: "string \<Rightarrow> string" where
  "padStart2 s = (if length s < 2 then replicate (2 - length s) CHR ''0'' @ s else s)"

definition timeOfDay :: "host \<Rightarrow> instant \<Rightarrow> string" where
  "timeOfDay h t = showNat (h_getHours h t) @ '':'' @ padStart2 (showNat (h_getMinutes h t))"

definition dayTypeOf :: "host \<Rightarrow> instant \<Rightarrow> string" where
  "dayTypeOf h t = (if h_getDay h t = 0 \<or> h_getDay h t = 6 then ''weekend'' else ''weekday'')"

record template =
  t_position :: string
  t_startTime :: string
  t_endTime :: string
  t_hours :: rat
  t_dayType :: string
  t_count :: nat

text \<open>\<^verbatim>\<open>s.position || 'Unknown'\<close>\<close>

definition positionOrUnknown :: "shift \<Rightarrow> string" where
  "positionOrUnknown s =
     (case s_position s of None \<Rightarrow> ''Unknown'' | Some p \<Rightarrow> if p = [] then ''Unknown'' else p)"

definition slotKey :: "host \<Rightarrow> shift \<Rightarrow> string" where
  "slotKey h s =
     positionOrUnknown s @ ''|'' @ timeOfDay h (s_start s) @ ''|'' @ timeOfDay h (s_end s)
       @ ''|'' @ dayTypeOf h (s_start s)"

definition newSlot :: "host \<Rightarrow> shift \<Rightarrow> template" where
  "newSlot h s =
     \<lparr>t_position = positionOrUnknown s,
      t_startTime = timeOfDay h (s_start s),
      t_endTime = timeOfDay h (s_end s),
      t_hours = of_int (s_end s - s_start s) / (1000 * 60 * 60),
      t_dayType = dayTypeOf h (s_start s),
      t_count = 0\<rparr>"

text \<open>
  \<^verbatim>\<open>slotCounts\<close> is an object with string keys, none of which reads as an integer, so
  \<^verbatim>\<open>Object.values\<close> lists it in insertion order: an association list. One step of the
  \<^verbatim>\<open>forEach\<close>: create the slot with count 0 if the key is new, then count it.
\<close>

definition counted :: "template \<Rightarrow> template" where
  "counted t = t\<lparr>t_count := t_count t + 1\<rparr>"

fun countSlot :: "string \<Rightarrow> template \<Rightarrow> (string \<times> template) list \<Rightarrow> (string \<times> template) list" where
  "countSlot k t [] = [(k, counted t)]"
| "countSlot k t ((k', t') # rest) =
     (if k' = k then (k', counted t') # rest
      else (k', t') # countSlot k t rest)"

definition slotCountsOf :: "host \<Rightarrow> shift list \<Rightarrow> (string \<times> template) list" where
  "slotCountsOf h ss = foldl (\<lambda>m s. countSlot (slotKey h s) (newSlot h s) m) [] ss"

text \<open>
  \<^verbatim>\<open>xs.sort(cmp)\<close> is stable; for a comparator that is a total preorder the result is the
  one stable sorted arrangement, which insertion from the right computes.
\<close>

fun insertBy :: "('a \<Rightarrow> 'a \<Rightarrow> rat) \<Rightarrow> 'a \<Rightarrow> 'a list \<Rightarrow> 'a list" where
  "insertBy cmp x [] = [x]"
| "insertBy cmp x (y # ys) = (if cmp x y \<le> 0 then x # y # ys else y # insertBy cmp x ys)"

definition sortBy :: "('a \<Rightarrow> 'a \<Rightarrow> rat) \<Rightarrow> 'a list \<Rightarrow> 'a list" where
  "sortBy cmp xs = foldr (insertBy cmp) xs []"

text \<open>The shifts that \<^verbatim>\<open>getShiftTemplates\<close> looks at: the last 28 days at Clement.\<close>

definition templateShifts :: "host \<Rightarrow> shift list" where
  "templateShifts h =
     (let fourWeeksAgo = h_startOfDay h (h_setDate h (h_now h) (- 28))
      in filter (\<lambda>s. locationIncludes s ''Clement'')
           (shifts (h_getOrgCalendar h fourWeeksAgo (h_now h))))"

definition getShiftTemplates :: "host \<Rightarrow> template list" where
  "getShiftTemplates h =
     sortBy (\<lambda>a b. of_nat (t_count b) - of_nat (t_count a))
       (filter (\<lambda>t. t_count t \<ge> 3) (map snd (slotCountsOf h (templateShifts h))))"

text \<open>The three tests of \<^verbatim>\<open>matchesTemplate\<close>.\<close>

definition exactTest :: "host \<Rightarrow> shift \<Rightarrow> template \<Rightarrow> bool" where
  "exactTest h sh t =
     (Some (t_position t) = s_position sh \<and> t_startTime t = timeOfDay h (s_start sh) \<and>
      t_endTime t = timeOfDay h (s_end sh) \<and> t_dayType t = dayTypeOf h (s_start sh))"

definition positionTest :: "host \<Rightarrow> shift \<Rightarrow> template \<Rightarrow> bool" where
  "positionTest h sh t =
     (Some (t_position t) = s_position sh \<and> t_dayType t = dayTypeOf h (s_start sh))"

definition timeTest :: "host \<Rightarrow> shift \<Rightarrow> template \<Rightarrow> bool" where
  "timeTest h sh t =
     (t_startTime t = timeOfDay h (s_start sh) \<and> t_endTime t = timeOfDay h (s_end sh) \<and>
      t_dayType t = dayTypeOf h (s_start sh))"

datatype matchTier = Exact | Position | Time | NoMatch

definition matchesTemplate :: "host \<Rightarrow> shift \<Rightarrow> template list \<Rightarrow> matchTier \<times> template option" where
  "matchesTemplate h shiftToCover templates =
     (case find (exactTest h shiftToCover) templates of
        Some exact \<Rightarrow> (Exact, Some exact)
      | None \<Rightarrow>
          (case find (positionTest h shiftToCover) templates of
             Some posMatch \<Rightarrow> (Position, Some posMatch)
           | None \<Rightarrow>
               (case find (timeTest h shiftToCover) templates of
                  Some timeMatch \<Rightarrow> (Time, Some timeMatch)
                | None \<Rightarrow> (NoMatch, None))))"

subsection \<open>Coverage candidates\<close>

datatype reason =
    AlreadyWorkingOverlaps
  | OnLeave
  | ShiftDoesNotFit
  | NoAvailabilitySet
  | WouldHitHours rat
  | ConsecutiveMax int

datatype warning =
    DoublePossible
  | NthConsecutiveDay int
  | SixthShiftThisWeek
  | ShiftNumberThisWeek nat
  | AboveUsual rat

datatype info =
    WindowCoversShift
  | UsualHours hist
  | HoursIfCovering rat rat

record candidate =
  c_employee :: string
  c_employeeId :: int
  c_available :: bool
  c_reasons :: "reason list"
  c_warnings :: "warning list"
  c_notes :: "info list"
  c_weeklyHours :: rat
  c_projectedHours :: rat
  c_historicalAvg :: "rat option"

text \<open>Already working that day: an overlap blocks, no overlap warns of a double.\<close>

definition workingCheck ::
  "host \<Rightarrow> shift list \<Rightarrow> shift \<Rightarrow> int \<Rightarrow> int \<Rightarrow> reason list \<times> warning list" where
  "workingCheck h weekShifts shiftToCover shiftDateStr empId =
     (case filter (\<lambda>s. s_employeeId s = Some empId \<and> h_dateString h (s_start s) = shiftDateStr)
             weekShifts of
        [] \<Rightarrow> ([], [])
      | existing # _ \<Rightarrow>
          if s_start existing < s_end shiftToCover \<and> s_end existing > s_start shiftToCover
          then ([AlreadyWorkingOverlaps], [])
          else ([], [DoublePossible]))"

definition leaveCheck :: "leave list \<Rightarrow> instant \<Rightarrow> int \<Rightarrow> reason list" where
  "leaveCheck weekLeaves targetDate empId =
     (if list_ex (\<lambda>l. l_employeeId l = Some empId \<and> l_start l \<le> targetDate \<and>
                       l_end l \<ge> targetDate) weekLeaves
      then [OnLeave] else [])"

text \<open>The availability of the candidate on the day of the shift.\<close>

definition dayAvailOf :: "host \<Rightarrow> avail list \<Rightarrow> int \<Rightarrow> int \<Rightarrow> avail list" where
  "dayAvailOf h weekAvail shiftDateStr empId =
     filter (\<lambda>a. a_employeeId a = Some empId \<and> h_dateString h (a_start a) = shiftDateStr)
       weekAvail"

definition coversShift :: "shift \<Rightarrow> avail \<Rightarrow> bool" where
  "coversShift shiftToCover a =
     (s_start shiftToCover \<ge> a_start a \<and> s_end shiftToCover \<le> a_end a)"

definition availCheck ::
  "host \<Rightarrow> avail list \<Rightarrow> shift \<Rightarrow> int \<Rightarrow> int \<Rightarrow> reason list \<times> info list" where
  "availCheck h weekAvail shiftToCover shiftDateStr empId =
     (let dayAvail = dayAvailOf h weekAvail shiftDateStr empId
      in if length dayAvail > 0
         then (if \<not> list_ex a_fullDay dayAvail
               then (if \<not> list_ex (coversShift shiftToCover) dayAvail
                     then ([ShiftDoesNotFit], [])
                     else ([], [WindowCoversShift]))
               else ([], []))
         else (if list_ex (\<lambda>a. a_employeeId a = Some empId) weekAvail
               then ([NoAvailabilitySet], [])
               else ([], [])))"

definition coverWeeklyHours :: "shift list \<Rightarrow> int \<Rightarrow> rat" where
  "coverWeeklyHours weekShifts empId =
     foldl (\<lambda>weeklyHours s. weeklyHours + of_int (s_end s - s_start s) / (1000 * 60 * 60)) 0
       (filter (\<lambda>s. s_employeeId s = Some empId) weekShifts)"

definition capCheck :: "rat \<Rightarrow> reason list" where
  "capCheck projectedHours = (if projectedHours > 40 then [WouldHitHours projectedHours] else [])"

text \<open>
  The \<^verbatim>\<open>for\<close> loop over the days from 6 before to 6 after the target day; the pair is
  \<^verbatim>\<open>(maxConsecutive, current)\<close>.
\<close>

definition streakStep :: "int list \<Rightarrow> int \<times> int \<Rightarrow> int \<Rightarrow> int \<times> int" where
  "streakStep worked mc d =
     (if d \<in> set worked then (max (fst mc) (snd mc + 1), snd mc + 1) else (fst mc, 0))"

definition maxConsecutiveOf :: "host \<Rightarrow> shift list \<Rightarrow> int \<Rightarrow> int \<Rightarrow> int" where
  "maxConsecutiveOf h streakShifts shiftDateStr empId =
     (let streakDatesWorked =
            map (\<lambda>s. h_dateString h (s_start s))
              (filter (\<lambda>s. s_employeeId s = Some empId) streakShifts) @ [shiftDateStr]
      in fst (foldl (streakStep streakDatesWorked) (0, 0) [shiftDateStr - 6 .. shiftDateStr + 6]))"

definition consecCheck :: "int \<Rightarrow> reason list \<times> warning list" where
  "consecCheck maxConsecutive =
     (if maxConsecutive \<ge> MAX_CONSECUTIVE_DAYS then ([ConsecutiveMax maxConsecutive], [])
      else if maxConsecutive \<ge> WARN_CONSECUTIVE_DAYS then ([], [NthConsecutiveDay maxConsecutive])
      else ([], []))"

definition weekCountCheck :: "shift list \<Rightarrow> int \<Rightarrow> warning list" where
  "weekCountCheck weekShifts empId =
     (let shiftsThisWeek = length (filter (\<lambda>s. s_employeeId s = Some empId) weekShifts)
      in if shiftsThisWeek + 1 = 6 then [SixthShiftThisWeek]
         else if shiftsThisWeek + 1 > 6 then [ShiftNumberThisWeek (shiftsThisWeek + 1)]
         else [])"

definition histCheck :: "hist option \<Rightarrow> rat \<Rightarrow> warning list \<times> info list" where
  "histCheck hist projectedHours =
     (case hist of
        None \<Rightarrow> ([], [])
      | Some hi \<Rightarrow>
          ((if projectedHours - hist_avg hi > 8 then [AboveUsual (projectedHours - hist_avg hi)]
            else []),
           [UsualHours hi]))"

text \<open>The body of the loop over \<^verbatim>\<open>clementEmployeeIds\<close>, for an employee found among the users.\<close>

definition evalCandidate ::
  "host \<Rightarrow> calendar \<Rightarrow> calendar \<Rightarrow> shift \<Rightarrow> instant \<Rightarrow> user \<Rightarrow> int \<Rightarrow> candidate" where
  "evalCandidate h weekData streakData shiftToCover targetDate usr empId =
     (let shiftDateStr = h_dateString h targetDate;
          shiftHours = of_int (s_end shiftToCover - s_start shiftToCover) / (1000 * 60 * 60);
          working = workingCheck h (shifts weekData) shiftToCover shiftDateStr empId;
          onLeave = leaveCheck (leaves weekData) targetDate empId;
          av = availCheck h (availability weekData) shiftToCover shiftDateStr empId;
          weeklyHours = coverWeeklyHours (shifts weekData) empId;
          projectedHours = weeklyHours + shiftHours;
          consec = consecCheck (maxConsecutiveOf h (shifts streakData) shiftDateStr empId);
          hist = h_historicalAvg h empId;
          hc = histCheck hist projectedHours;
          reasons = fst working @ onLeave @ fst av @ capCheck projectedHours @ fst consec;
          warnings = snd working @ snd consec @ weekCountCheck (shifts weekData) empId @ fst hc;
          notes = snd av @ snd hc @ [HoursIfCovering weeklyHours projectedHours]
      in \<lparr>c_employee = h_trim h (u_name usr @ '' '' @ u_lname usr),
          c_employeeId = empId,
          c_available = (length reasons = 0),
          c_reasons = reasons,
          c_warnings = warnings,
          c_notes = notes,
          c_weeklyHours = weeklyHours,
          c_projectedHours = projectedHours,
          c_historicalAvg = map_option hist_avg hist\<rparr>)"

text \<open>\<^verbatim>\<open>if (id) set.add(id)\<close>, the set kept in insertion order.\<close>

definition addId :: "int list \<Rightarrow> int option \<Rightarrow> int list" where
  "addId ids i =
     (case i of
        None \<Rightarrow> ids
      | Some e \<Rightarrow> if e = 0 \<or> e \<in> set ids then ids else ids @ [e])"

definition clementEmployeeIdsOf :: "calendar \<Rightarrow> calendar \<Rightarrow> int list" where
  "clementEmployeeIdsOf weekData streakData =
     (let a = foldl addId []
                (map s_employeeId (filter (\<lambda>s. locationIncludes s ''Clement'') (shifts weekData)));
          b = foldl addId a
                (map s_employeeId (filter (\<lambda>s. locationIncludes s ''Clement'') (shifts streakData)))
      in foldl addId b (map a_employeeId (availability weekData)))"

text \<open>The comparator of \<^verbatim>\<open>candidates.sort\<close>.\<close>

definition candidateOrder :: "candidate \<Rightarrow> candidate \<Rightarrow> rat" where
  "candidateOrder a b =
     (if c_available a \<and> \<not> c_available b then - 1
      else if \<not> c_available a \<and> c_available b then 1
      else if c_available a \<and> c_available b then c_projectedHours a - c_projectedHours b
      else 0)"

definition unsortedCandidates ::
  "host \<Rightarrow> calendar \<Rightarrow> calendar \<Rightarrow> shift \<Rightarrow> instant \<Rightarrow> candidate list" where
  "unsortedCandidates h weekData streakData shiftToCover targetDate =
     concat (map (\<lambda>empId.
        if Some empId = s_employeeId shiftToCover then []
        else (case find (\<lambda>u. u_id u = empId) (h_users h) of
                None \<Rightarrow> []
              | Some usr \<Rightarrow> [evalCandidate h weekData streakData shiftToCover targetDate usr empId]))
       (clementEmployeeIdsOf weekData streakData))"

text \<open>The two \<^verbatim>\<open>getOrgCalendar\<close> results of \<^verbatim>\<open>findCoverage\<close>.\<close>

definition coverWeekData :: "host \<Rightarrow> instant \<Rightarrow> calendar" where
  "coverWeekData h targetDate =
     (let weekStart = h_startOfDay h (h_setDate h targetDate (- int (h_getDay h targetDate)));
          weekEnd = h_endOfDay h (h_setDate h weekStart 6)
      in h_getOrgCalendar h weekStart weekEnd)"

definition coverStreakData :: "host \<Rightarrow> instant \<Rightarrow> calendar" where
  "coverStreakData h targetDate =
     (let streakStart = h_startOfDay h (h_setDate h targetDate (- 6));
          streakEnd = h_endOfDay h (h_setDate h targetDate 6)
      in h_getOrgCalendar h streakStart streakEnd)"

record coverage =
  r_shiftToCover :: shift
  r_templateMatch :: "(matchTier \<times> template) option"
  r_candidates :: "candidate list"

text \<open>
  \<^verbatim>\<open>findCoverage\<close>: the week runs from Sunday 00:00 to Saturday 23:59:59.999 around the
  target day. A \<^verbatim>\<open>getDayRange\<close> that throws surfaces as the HTTP 500 of the route.
\<close>

definition findCoverage :: "host \<Rightarrow> string \<Rightarrow> string option \<Rightarrow> error + coverage" where
  "findCoverage h targetDay targetEmployeeName =
     (case h_getDayRange h targetDay of
        None \<Rightarrow> Inl ServerError
      | Some r \<Rightarrow>
          (let targetDate = dr_start r;
               weekData = coverWeekData h targetDate;
               streakData = coverStreakData h targetDate;
               shiftTemplates = getShiftTemplates h;
               shiftDateStr = h_dateString h targetDate;
               targetShifts =
                 filter (\<lambda>s. h_dateString h (s_start s) = shiftDateStr \<and>
                              (\<not> truthyStr targetEmployeeName \<or>
                               str_includes (h_toLowerCase h (s_employee s))
                                 (h_toLowerCase h (the targetEmployeeName))))
                   (shifts weekData)
           in case targetShifts of
                [] \<Rightarrow> Inl NoShiftFound
              | shiftToCover # _ \<Rightarrow>
                  Inr \<lparr>r_shiftToCover = shiftToCover,
                       r_templateMatch =
                         (case matchesTemplate h shiftToCover shiftTemplates of
                            (tier, Some t) \<Rightarrow> if tier \<noteq> NoMatch then Some (tier, t) else None
                          | (tier, None) \<Rightarrow> None),
                       r_candidates =
                         sortBy candidateOrder
                           (unsortedCandidates h weekData streakData shiftToCover targetDate)\<rparr>))"

subsection \<open>A concrete host: zone UTC, Pacific Standard Time as the business zone\<close>

text \<open>
  A host whose local zone is UTC, at a time of year when Pacific time is 8 hours behind.
  Its \<^verbatim>\<open>Number\<close> and \<^verbatim>\<open>parseInt\<close> are given on strings of decimal digits, which is all the
  examples use; its upstream serves the records of a fixed calendar that start inside the
  requested range; \<^verbatim>\<open>getDayRange\<close> is tabulated for Saturday 2024-01-06, whose Pacific day
  is 08:00:00.000 UTC to 07:59:59.999 UTC of the next day.
\<close>

definition isDigit :: "char \<Rightarrow> bool" where
  "isDigit c = (48 \<le> (of_char c :: nat) \<and> (of_char c :: nat) \<le> 57)"

definition digitsValue :: "string \<Rightarrow> nat" where
  "digitsValue s = foldl (\<lambda>n c. 10 * n + (of_char c - 48)) 0 s"

definition utcNumber :: "string \<Rightarrow> rat option" where
  "utcNumber s = (if list_all isDigit s then Some (of_nat (digitsValue s)) else None)"

definition utcParseInt :: "string \<Rightarrow> int option" where
  "utcParseInt s =
     (let ds = takeWhile isDigit s in if ds = [] then None else Some (int (digitsValue ds)))"

definition asciiLower :: "string \<Rightarrow> string" where
  "asciiLower s =
     map (\<lambda>c. if 65 \<le> (of_char c :: nat) \<and> (of_char c :: nat) \<le> 90
               then char_of ((of_char c :: nat) + 32) else c) s"

definition trimSpaces :: "string \<Rightarrow> string" where
  "trimSpaces s =
     rev (dropWhile (\<lambda>c. c = CHR '' '') (rev (dropWhile (\<lambda>c. c = CHR '' '') s)))"

definition msPerDay :: int where "msPerDay = 86400000"

definition inRange :: "instant \<Rightarrow> instant \<Rightarrow> instant \<Rightarrow> bool" where
  "inRange lo hi t = (lo \<le> t \<and> t \<le> hi)"

definition serve :: "calendar \<Rightarrow> instant \<Rightarrow> instant \<Rightarrow> calendar" where
  "serve cal lo hi =
     \<lparr>shifts = filter (\<lambda>s. inRange lo hi (s_start s)) (shifts cal),
      leaves = filter (\<lambda>l. inRange lo hi (l_start l)) (leaves cal),
      availability = filter (\<lambda>a. inRange lo hi (a_start a)) (availability cal)\<rparr>"

definition sat6 :: dayRange where
  "sat6 = \<lparr>dr_start = 1704528000000, dr_end = 1704614399999, dr_isoDate = ''2024-01-06''\<rparr>"

definition utcHost :: "calendar \<Rightarrow> user list \<Rightarrow> host" where
  "utcHost cal us =
     \<lparr>h_Number = utcNumber,
      h_parseInt = utcParseInt,
      h_toLowerCase = asciiLower,
      h_trim = trimSpaces,
      h_now = 1704300000000,
      h_nowPT = 1704300000000 - 8 * 3600000,
      h_getDayRange = (\<lambda>d. if d = ''2024-01-06'' then Some sat6 else None),
      h_getOrgCalendar = serve cal,
      h_users = us,
      h_historicalAvg = (\<lambda>i. None),
      h_dateString = (\<lambda>t. t div msPerDay),
      h_getHours = (\<lambda>t. nat ((t mod msPerDay) div 3600000)),
      h_getMinutes = (\<lambda>t. nat ((t mod 3600000) div 60000)),
      h_getDay = (\<lambda>t. nat ((t div msPerDay + 4) mod 7)),
      h_setDate = (\<lambda>t n. t + n * msPerDay),
      h_startOfDay = (\<lambda>t. t - t mod msPerDay),
      h_endOfDay = (\<lambda>t. t - t mod msPerDay + 86399999)\<rparr>"

definition emptyCalendar :: calendar where
  "emptyCalendar = \<lparr>shifts = [], leaves = [], availability = []\<rparr>"

text \<open>Brianna, by name, on Saturday 2024-01-06, 10:00 to 14:00, location left out.\<close>

definition briannaRequest :: request where
  "briannaRequest =
     \<lparr>employeeId = JUndefined, employee = JStr ''Brianna'', date = Some ''2024-01-06'',
      startTime = Some ''10:00'', endTime = Some ''14:00'', location = JUndefined\<rparr>"

definition yellowFallback :: violation where
  "yellowFallback = \<lparr>rule = ''AVAIL-FALLBACK'', severity = YELLOW, payload = NoPayload\<rparr>"

definition briannaVerdict :: verdict where
  "briannaVerdict =
     \<lparr>v_status = UNCONFIRMED, v_employeeId = 21868029, v_date = ''2024-01-06'',
      v_location = ''Clement Pixlcat'', v_violations = [], v_warnings = [yellowFallback],
      v_weeklyHours = 0, v_projectedHours = Some 4, v_consecutiveDays = 1\<rparr>"

text \<open>
  Hayden works Monday 2024-01-01 to Friday 2024-01-05, 09:00 to 16:00 Pacific time at
  Clement, 35 hours, and is asked for Saturday 2024-01-06, 10:00 to 15:00.
\<close>

definition haydenShift :: "instant \<Rightarrow> instant \<Rightarrow> shift" where
  "haydenShift a b =
     \<lparr>s_employee = ''Hayden'', s_employeeId = Some 19838518, s_position = Some ''Barista'',
      s_location = Some ''Clement Pixlcat'', s_locationId = Some 16124319,
      s_start = a, s_end = b\<rparr>"

definition workWeekCalendar :: calendar where
  "workWeekCalendar =
     \<lparr>shifts = [haydenShift 1704128400000 1704153600000,
                haydenShift 1704214800000 1704240000000,
                haydenShift 1704301200000 1704326400000,
                haydenShift 1704387600000 1704412800000,
                haydenShift 1704474000000 1704499200000],
      leaves = [], availability = []\<rparr>"

definition haydenRequest :: request where
  "haydenRequest =
     \<lparr>employeeId = JNum 19838518, employee = JUndefined, date = Some ''2024-01-06'',
      startTime = Some ''10:00'', endTime = Some ''15:00'', location = JUndefined\<rparr>"

definition orangeStreak6 :: violation where
  "orangeStreak6 = \<lparr>rule = ''CONSEC-002'', severity = ORANGE, payload = DaysPayload 6\<rparr>"

definition haydenVerdict :: verdict where
  "haydenVerdict =
     \<lparr>v_status = NEEDS_APPROVAL, v_employeeId = 19838518, v_date = ''2024-01-06'',
      v_location = ''Clement Pixlcat'', v_violations = [orangeStreak6],
      v_warnings = [yellowFallback], v_weeklyHours = 35, v_projectedHours = Some 40,
      v_consecutiveDays = 6\<rparr>"

text \<open>
  The same week with an availability record of Hayden for the Saturday, 17:00 to 20:00 UTC,
  and a request that leaves out the start time.
\<close>

definition haydenSaturdayWindow :: avail where
  "haydenSaturdayWindow =
     \<lparr>a_employeeId = Some 19838518, a_start = 1704560400000, a_end = 1704571200000,
      a_fullDay = False\<rparr>"

definition availWeekCalendar :: calendar where
  "availWeekCalendar = workWeekCalendar\<lparr>availability := [haydenSaturdayWindow]\<rparr>"

definition noStartRequest :: request where
  "noStartRequest = haydenRequest\<lparr>startTime := None\<rparr>"

definition noStartVerdict :: verdict where
  "noStartVerdict =
     \<lparr>v_status = NEEDS_APPROVAL, v_employeeId = 19838518, v_date = ''2024-01-06'',
      v_location = ''Clement Pixlcat'', v_violations = [orangeStreak6],
      v_warnings = [], v_weeklyHours = 35, v_projectedHours = Some 35,
      v_consecutiveDays = 6\<rparr>"













text \<open>
  The work week of Hayden and a shift of David on Saturday 2024-01-06, 10:00 to 15:00
  Pacific time at Clement, that needs covering.
\<close>

definition davidSaturday :: shift where
  "davidSaturday =
     \<lparr>s_employee = ''David Lee'', s_employeeId = Some 12302285, s_position = Some ''Barista'',
      s_location = Some ''Clement Pixlcat'', s_locationId = Some 16124319,
      s_start = 1704564000000, s_end = 1704582000000\<rparr>"

definition staff :: "user list" where
  "staff = [\<lparr>u_id = 19838518, u_name = ''Hayden'', u_lname = ''Park''\<rparr>,
            \<lparr>u_id = 12302285, u_name = ''David'', u_lname = ''Lee''\<rparr>]"


text \<open>
  The order that the comparator of \<^verbatim>\<open>candidates.sort\<close> induces: \<open>a\<close> may stand before
  \<open>b\<close> when the comparator is not positive.
\<close>

definition before :: "candidate \<Rightarrow> candidate \<Rightarrow> bool" where
  "before a b = (candidateOrder a b \<le> 0)"

text \<open>
  Three candidates for the shift of David: Emily works 09:00 to 12:00 Pacific time that
  Saturday, which overlaps; Hayden has his 35 hours; Sara has four hours on Monday.
\<close>

definition emilySaturday :: shift where
  "emilySaturday =
     \<lparr>s_employee = ''Emily Cho'', s_employeeId = Some 24605713, s_position = Some ''Barista'',
      s_location = Some ''Clement Pixlcat'', s_locationId = Some 16124319,
      s_start = 1704560400000, s_end = 1704571200000\<rparr>"

definition saraMonday :: shift where
  "saraMonday =
     \<lparr>s_employee = ''Sara Diaz'', s_employeeId = Some 24949126, s_position = Some ''Cashier'',
      s_location = Some ''Clement Pixlcat'', s_locationId = Some 16124319,
      s_start = 1704128400000, s_end = 1704142800000\<rparr>"

definition rankStaff :: "user list" where
  "rankStaff = staff @ [\<lparr>u_id = 24605713, u_name = ''Emily'', u_lname = ''Cho''\<rparr>,
                        \<lparr>u_id = 24949126, u_name = ''Sara'', u_lname = ''Diaz''\<rparr>]"

definition rankCalendar :: calendar where
  "rankCalendar =
     workWeekCalendar\<lparr>shifts := emilySaturday # shifts workWeekCalendar @ [saraMonday, davidSaturday]\<rparr>"





definition saraAt9 :: candidate where
  "saraAt9 =
     \<lparr>c_employee = ''Sara Diaz'', c_employeeId = 24949126, c_available = True,
      c_reasons = [], c_warnings = [], c_notes = [HoursIfCovering 4 9],
      c_weeklyHours = 4, c_projectedHours = 9, c_historicalAvg = None\<rparr>"

definition haydenAt40 :: candidate where
  "haydenAt40 =
     \<lparr>c_employee = ''Hayden Park'', c_employeeId = 19838518, c_available = True,
      c_reasons = [], c_warnings = [NthConsecutiveDay 6, SixthShiftThisWeek],
      c_notes = [HoursIfCovering 35 40], c_weeklyHours = 35, c_projectedHours = 40,
      c_historicalAvg = None\<rparr>"

definition emilyOverlapping :: candidate where
  "emilyOverlapping =
     \<lparr>c_employee = ''Emily Cho'', c_employeeId = 24605713, c_available = False,
      c_reasons = [AlreadyWorkingOverlaps], c_warnings = [], c_notes = [HoursIfCovering 3 8],
      c_weeklyHours = 3, c_projectedHours = 8, c_historicalAvg = None\<rparr>"


definition rankedCoverage :: coverage where
  "rankedCoverage =
     \<lparr>r_shiftToCover = davidSaturday, r_templateMatch = None,
      r_candidates = [saraAt9, haydenAt40, emilyOverlapping]\<rparr>"










subsection \<open>Groups of shifts and tiers of a match\<close>












section \<open>Verdict resolution\<close>

lemma filter_nonempty_iff: "(length (filter P xs) > 0) = (\<exists>x\<in>set xs. P x)"
  by (induction xs) auto

lemma resolveStatus_priority:
  "resolveStatus vs ws =
     (if \<exists>x\<in>set vs. severity x = RED then BLOCKED
      else if \<exists>x\<in>set vs. severity x = ORANGE then NEEDS_APPROVAL
      else if ws \<noteq> [] then UNCONFIRMED
      else APPROVED)"
  unfolding resolveStatus_def Let_def filter_nonempty_iff by simp

lemma runGates_status:
  "v_status (runGates h userId r week req) =
     resolveStatus (v_violations (runGates h userId r week req))
                   (v_warnings (runGates h userId r week req))"
  by (simp add: runGates_def Let_def)

lemma validate_Inr:
  "validate h req = Inr v \<Longrightarrow>
     \<exists>userId r week. requestUserId h req = Some userId \<and> userId \<noteq> 0 \<and> truthyStr (date req) \<and>
        h_getDayRange h (the (date req)) = Some r \<and>
        getWeekRange h (dr_isoDate r) = Some week \<and>
        v = runGates h userId r week req"
  by (auto simp: validate_def split: option.splits if_splits)

text \<open>
  Claim C1. Whenever the handler of \<^verbatim>\<open>POST /schedule/validate\<close> answers with a verdict, the
  status is BLOCKED if a violation of severity RED was collected; otherwise NEEDS_APPROVAL if
  a violation of severity ORANGE was collected; otherwise UNCONFIRMED if there is at least
  one warning; otherwise APPROVED.
\<close>

theorem validate_status_priority:
  "validate h req = Inr v \<Longrightarrow>
     v_status v =
       (if \<exists>x\<in>set (v_violations v). severity x = RED then BLOCKED
        else if \<exists>x\<in>set (v_violations v). severity x = ORANGE then NEEDS_APPROVAL
        else if v_warnings v \<noteq> [] then UNCONFIRMED
        else APPROVED)"
proof -
  assume "validate h req = Inr v"
  then obtain userId r week where "v = runGates h userId r week req"
    using validate_Inr by blast
  then show ?thesis
    using runGates_status [of h userId r week req] resolveStatus_priority by simp
qed

theorem validate_status_priority_witness:
  "validate (utcHost emptyCalendar []) briannaRequest = Inr briannaVerdict \<and>
   v_status briannaVerdict = UNCONFIRMED \<and>
   \<not> (\<exists>x\<in>set (v_violations briannaVerdict). severity x = RED) \<and>
   \<not> (\<exists>x\<in>set (v_violations briannaVerdict). severity x = ORANGE) \<and>
   v_warnings briannaVerdict \<noteq> []"
proof -
  have run: "validate (utcHost emptyCalendar []) briannaRequest = Inr briannaVerdict"
    by code_simp
  show ?thesis
    using run validate_status_priority [OF run] by (simp add: briannaVerdict_def)
qed

section \<open>The sixth consecutive day\<close>

lemma walkBack_in: "d - 1 \<in> set ws \<Longrightarrow> walkBack ws d k = walkBack ws (d - 1) (k + 1)"
  by (subst walkBack.simps) simp

lemma walkBack_out: "d - 1 \<notin> set ws \<Longrightarrow> walkBack ws d k = k"
  by (subst walkBack.simps) simp

lemma walkForward_out: "d + 1 \<notin> set ws \<Longrightarrow> walkForward ws d k = k"
  by (subst walkForward.simps) simp

lemma walkBack_five:
  assumes "\<forall>k\<in>{1..5}. d - k \<in> set ws" and "d - 6 \<notin> set ws"
  shows "walkBack ws d 1 = 6"
proof -
  have m: "d - 1 \<in> set ws" "d - 1 - 1 \<in> set ws" "d - 1 - 1 - 1 \<in> set ws"
    "d - 1 - 1 - 1 - 1 \<in> set ws" "d - 1 - 1 - 1 - 1 - 1 \<in> set ws"
    using assms(1) by simp_all
  have n: "d - 1 - 1 - 1 - 1 - 1 - 1 \<notin> set ws" using assms(2) by simp
  show ?thesis
    by (simp only: walkBack_in [OF m(1)] walkBack_in [OF m(2)] walkBack_in [OF m(3)]
        walkBack_in [OF m(4)] walkBack_in [OF m(5)] walkBack_out [OF n])
qed

lemma streakOf_five:
  assumes "\<forall>k\<in>{1..5}. h_dateString h start - k \<in> set (shiftDaysOf h u cal)"
    and "h_dateString h start - 6 \<notin> set (shiftDaysOf h u cal)"
    and "h_dateString h start + 1 \<notin> set (shiftDaysOf h u cal)"
  shows "streakOf h u cal start = 6"
proof -
  let ?ws = "workDatesOf h u cal start" and ?d = "h_dateString h start"
  have a: "\<forall>k\<in>{1..5}. ?d - k \<in> set ?ws" using assms(1) by (simp add: workDatesOf_def)
  have b: "?d - 6 \<notin> set ?ws" using assms(2) by (simp add: workDatesOf_def)
  have c: "?d + 1 \<notin> set ?ws" using assms(3) by (simp add: workDatesOf_def)
  show ?thesis
    by (simp add: streakOf_def Let_def walkBack_five [OF a b] walkForward_out [OF c])
qed

lemma find_Some_mem: "find P xs = Some x \<Longrightarrow> P x \<and> x \<in> set xs"
  by (induction xs) (auto split: if_splits)


lemma gate1_no_records:
  assumes "\<forall>a\<in>set (availability c). a_employeeId a \<noteq> Some u"
    and "\<forall>l\<in>set (leaves c). l_employeeId l \<noteq> Some u"
  shows "gate1 h u req c = ([], [yellowFallback])"
proof -
  have a: "filter (\<lambda>a. a_employeeId a = Some u) (availability c) = []"
    using assms(1) by (simp add: filter_empty_conv)
  have l: "find (\<lambda>l. l_employeeId l = Some u) (leaves c) = None"
    using assms(2) by (simp add: find_None_iff)
  show ?thesis by (simp add: gate1_def Let_def a l yellowFallback_def)
qed

lemma gate2_no_shift:
  assumes "\<forall>s\<in>set (shifts c). s_employeeId s \<noteq> Some u"
  shows "gate2 u t c = []"
  using assms by (auto simp: gate2_def Let_def dest!: find_Some_mem)

lemma gate3_orange: "x \<in> set (gate3 w p) \<Longrightarrow> severity x = ORANGE \<and> rule x = ''HOURS-001''"
  by (auto simp: gate3_def split: option.splits if_splits)

lemma gate4_six: "gate4 6 = [orangeStreak6]"
  by (simp add: gate4_def MAX_CONSECUTIVE_DAYS_def WARN_CONSECUTIVE_DAYS_def orangeStreak6_def)

text \<open>
  Claim C2, as the code has it. An employee has a shift on each of the five days before the
  target day (Monday to Friday before a Saturday), none on the day before those, none on the
  target day and none on the day after, and has neither an availability record nor a leave
  grant among the records of the target day. Then the handler reports consecutiveDays = 6
  and the status NEEDS_APPROVAL: 6 reaches the warn threshold 6, which adds the ORANGE
  violation CONSEC-002; no violation is RED; the YELLOW warning AVAIL-FALLBACK is the only
  warning and does not decide the status.
\<close>

theorem validate_sixth_day:
  assumes run: "validate h req = Inr v"
    and day: "h_getDayRange h (the (date req)) = Some r"
    and worked: "\<forall>k\<in>{1..5}. h_dateString h (dr_start r) - k
                   \<in> set (shiftDaysOf h (v_employeeId v) (streakCalOf h r))"
    and before: "h_dateString h (dr_start r) - 6
                   \<notin> set (shiftDaysOf h (v_employeeId v) (streakCalOf h r))"
    and after: "h_dateString h (dr_start r) + 1
                   \<notin> set (shiftDaysOf h (v_employeeId v) (streakCalOf h r))"
    and noShift: "\<forall>s\<in>set (shifts (dayCalOf h r)). s_employeeId s \<noteq> Some (v_employeeId v)"
    and noAvail: "\<forall>a\<in>set (availability (dayCalOf h r)). a_employeeId a \<noteq> Some (v_employeeId v)"
    and noLeave: "\<forall>l\<in>set (leaves (dayCalOf h r)). l_employeeId l \<noteq> Some (v_employeeId v)"
  shows "v_consecutiveDays v = 6 \<and> v_status v = NEEDS_APPROVAL \<and>
         v_warnings v = [yellowFallback] \<and> orangeStreak6 \<in> set (v_violations v) \<and>
         (\<forall>x\<in>set (v_violations v). severity x = ORANGE)"
proof -
  obtain u r' week where v: "v = runGates h u r' week req"
    and r': "h_getDayRange h (the (date req)) = Some r'"
    using validate_Inr [OF run] by blast
  have rr: "r' = r" using r' day by simp
  have u: "v_employeeId v = u" by (simp add: v runGates_def Let_def)
  have s6: "streakOf h u (streakCalOf h r) (dr_start r) = 6"
    using streakOf_five worked before after unfolding u by blast
  have g1: "gate1 h u req (dayCalOf h r) = ([], [yellowFallback])"
    using gate1_no_records noAvail noLeave unfolding u by blast
  have g2: "gate2 u t (dayCalOf h r) = []" for t
    using gate2_no_shift noShift unfolding u by blast
  have vs: "v_violations v = gate3 (weeklyHoursOf u (weekCalOf h week))
              (projectedHoursOf (weeklyHoursOf u (weekCalOf h week)) (proposedHoursOf h req))
              @ [orangeStreak6]"
    by (simp add: v rr runGates_def Let_def s6 g1 g2 gate4_six)
  have ws: "v_warnings v = [yellowFallback]"
    by (simp add: v rr runGates_def Let_def g1)
  have cd: "v_consecutiveDays v = 6"
    by (simp add: v rr runGates_def Let_def s6)
  have allO: "\<forall>x\<in>set (v_violations v). severity x = ORANGE"
    unfolding vs using gate3_orange by (auto simp: orangeStreak6_def)
  have mem: "orangeStreak6 \<in> set (v_violations v)" unfolding vs by simp
  have st: "v_status v = resolveStatus (v_violations v) (v_warnings v)"
    by (simp add: v runGates_def Let_def)
  have "v_status v = NEEDS_APPROVAL"
    unfolding st resolveStatus_priority using allO mem
    by (auto simp: orangeStreak6_def)
  then show ?thesis using cd ws mem allO by simp
qed

theorem validate_sixth_day_witness:
  "validate (utcHost workWeekCalendar []) haydenRequest = Inr haydenVerdict \<and>
   v_consecutiveDays haydenVerdict = 6 \<and> v_status haydenVerdict = NEEDS_APPROVAL \<and>
   v_warnings haydenVerdict = [yellowFallback] \<and>
   orangeStreak6 \<in> set (v_violations haydenVerdict)"
proof -
  let ?h = "utcHost workWeekCalendar []"
  have run: "validate ?h haydenRequest = Inr haydenVerdict"
    by code_simp
  have day: "h_getDayRange ?h (the (date haydenRequest)) = Some sat6"
    by code_simp
  have worked: "\<forall>k\<in>{1..5}. h_dateString ?h (dr_start sat6) - k
                  \<in> set (shiftDaysOf ?h (v_employeeId haydenVerdict) (streakCalOf ?h sat6))"
    by code_simp
  have before: "h_dateString ?h (dr_start sat6) - 6
                  \<notin> set (shiftDaysOf ?h (v_employeeId haydenVerdict) (streakCalOf ?h sat6))"
    by code_simp
  have after: "h_dateString ?h (dr_start sat6) + 1
                  \<notin> set (shiftDaysOf ?h (v_employeeId haydenVerdict) (streakCalOf ?h sat6))"
    by code_simp
  have noShift: "\<forall>s\<in>set (shifts (dayCalOf ?h sat6)).
                   s_employeeId s \<noteq> Some (v_employeeId haydenVerdict)"
    by code_simp
  have noAvail: "\<forall>a\<in>set (availability (dayCalOf ?h sat6)).
                   a_employeeId a \<noteq> Some (v_employeeId haydenVerdict)"
    by code_simp
  have noLeave: "\<forall>l\<in>set (leaves (dayCalOf ?h sat6)).
                   l_employeeId l \<noteq> Some (v_employeeId haydenVerdict)"
    by code_simp
  show ?thesis
    using run validate_sixth_day [OF run day worked before after noShift noAvail noLeave]
    by simp
qed

text \<open>
  The scenario of claim C2 on the concrete host: Hayden has worked Monday to Friday and is
  validated for the Saturday. The status is NEEDS_APPROVAL, not UNCONFIRMED.
\<close>

theorem validate_sixth_day_not_unconfirmed:
  "validate (utcHost workWeekCalendar []) haydenRequest = Inr haydenVerdict \<and>
   v_consecutiveDays haydenVerdict = 6 \<and> v_status haydenVerdict \<noteq> UNCONFIRMED"
  by code_simp

section \<open>Rule codes of the gates\<close>

lemma gate1_rules:
  "x \<in> set (fst (gate1 h u req c)) \<Longrightarrow> rule x = ''LEAVE-001'' \<or> rule x = ''AVAIL-001''"
  by (auto simp: gate1_def Let_def split: if_splits)

lemma gate2_rules: "x \<in> set (gate2 u t c) \<Longrightarrow> rule x = ''XLOC-001''"
  by (auto simp: gate2_def Let_def split: if_splits)

lemma gate4_rules: "x \<in> set (gate4 k) \<Longrightarrow> rule x = ''CONSEC-001'' \<or> rule x = ''CONSEC-002''"
  by (auto simp: gate4_def split: if_splits)

lemma gate3_hours:
  "(\<exists>x\<in>set (gate3 w p). rule x = ''HOURS-001'') = (\<exists>q. p = Some q \<and> q > MAX_WEEKLY_HOURS)"
  by (auto simp: gate3_def split: option.splits)

lemma runGates_violations:
  "v_violations (runGates h u r week req) =
     fst (gate1 h u req (dayCalOf h r)) @ gate2 u (targetLocation h (location req)) (dayCalOf h r)
     @ gate3 (weeklyHoursOf u (weekCalOf h week))
         (projectedHoursOf (weeklyHoursOf u (weekCalOf h week)) (proposedHoursOf h req))
     @ gate4 (streakOf h u (streakCalOf h r) (dr_start r))"
  by (simp add: runGates_def Let_def)

lemma runGates_hours_rule:
  "(\<exists>x\<in>set (v_violations (runGates h u r week req)). rule x = ''HOURS-001'') =
   (\<exists>q. projectedHoursOf (weeklyHoursOf u (weekCalOf h week)) (proposedHoursOf h req) = Some q
        \<and> q > MAX_WEEKLY_HOURS)"
proof -
  have a: "\<not> (\<exists>x\<in>set (fst (gate1 h u req (dayCalOf h r))). rule x = ''HOURS-001'')"
    using gate1_rules by fastforce
  have b: "\<not> (\<exists>x\<in>set (gate2 u (targetLocation h (location req)) (dayCalOf h r)).
               rule x = ''HOURS-001'')"
    using gate2_rules by fastforce
  have c: "\<not> (\<exists>x\<in>set (gate4 (streakOf h u (streakCalOf h r) (dr_start r))).
               rule x = ''HOURS-001'')"
    using gate4_rules by fastforce
  show ?thesis
    unfolding runGates_violations using a b c gate3_hours
    by (simp add: bex_Un)
qed

section \<open>Requests without a time window\<close>

lemma gate1_without_times:
  "\<not> (truthyStr (startTime req) \<and> truthyStr (endTime req)) \<Longrightarrow>
     x \<in> set (fst (gate1 h u req c)) \<Longrightarrow> rule x = ''LEAVE-001''"
  by (auto simp: gate1_def Let_def split: if_splits)

text \<open>
  Claim C10. A request that passes the employee and date checks and leaves out startTime or
  endTime: no violation AVAIL-001 is reported, whatever availability is on record; the
  proposed shift counts 0 hours, so the reported projectedHours is the reported
  weeklyHours; and HOURS-001 is reported exactly when the hours already in the week exceed
  the cap.
\<close>

theorem validate_without_times:
  assumes run: "validate h req = Inr v"
    and day: "h_getDayRange h (the (date req)) = Some r"
    and week: "getWeekRange h (dr_isoDate r) = Some week"
    and omitted: "\<not> (truthyStr (startTime req) \<and> truthyStr (endTime req))"
  shows "(\<forall>x\<in>set (v_violations v). rule x \<noteq> ''AVAIL-001'') \<and>
         proposedHoursOf h req = Some 0 \<and>
         v_projectedHours v = Some (v_weeklyHours v) \<and>
         ((\<exists>x\<in>set (v_violations v). rule x = ''HOURS-001'') =
            (weeklyHoursOf (v_employeeId v) (weekCalOf h week) > MAX_WEEKLY_HOURS))"
proof -
  obtain u r' week' where v: "v = runGates h u r' week' req"
    and r': "h_getDayRange h (the (date req)) = Some r'"
    and w': "getWeekRange h (dr_isoDate r') = Some week'"
    using validate_Inr [OF run] by blast
  have rr: "r' = r" using r' day by simp
  have ww: "week' = week" using w' week rr by simp
  have u: "v_employeeId v = u" by (simp add: v runGates_def Let_def)
  have p0: "proposedHoursOf h req = Some 0"
    using omitted by (auto simp: proposedHoursOf_def)
  have noAvail: "\<forall>x\<in>set (v_violations v). rule x \<noteq> ''AVAIL-001''"
  proof
    fix x assume "x \<in> set (v_violations v)"
    then consider "x \<in> set (fst (gate1 h u req (dayCalOf h r)))"
      | "x \<in> set (gate2 u (targetLocation h (location req)) (dayCalOf h r))"
      | "x \<in> set (gate3 (weeklyHoursOf u (weekCalOf h week))
            (projectedHoursOf (weeklyHoursOf u (weekCalOf h week)) (proposedHoursOf h req)))"
      | "x \<in> set (gate4 (streakOf h u (streakCalOf h r) (dr_start r)))"
      unfolding v rr ww runGates_violations by auto
    then show "rule x \<noteq> ''AVAIL-001''"
    proof cases
      case 1 then show ?thesis using gate1_without_times [OF omitted] by fastforce
    next
      case 2 then show ?thesis using gate2_rules by fastforce
    next
      case 3 then show ?thesis using gate3_orange by fastforce
    next
      case 4 then show ?thesis using gate4_rules by fastforce
    qed
  qed
  have proj: "v_projectedHours v = Some (v_weeklyHours v)"
    by (simp add: v runGates_def Let_def p0 projectedHoursOf_def)
  have hrs: "(\<exists>x\<in>set (v_violations v). rule x = ''HOURS-001'') =
            (weeklyHoursOf u (weekCalOf h week) > MAX_WEEKLY_HOURS)"
    unfolding v ww runGates_hours_rule by (simp add: p0 projectedHoursOf_def)
  show ?thesis using noAvail p0 proj hrs unfolding u by simp
qed

theorem validate_without_times_witness:
  "validate (utcHost availWeekCalendar []) noStartRequest = Inr noStartVerdict \<and>
   \<not> (\<exists>x\<in>set (v_violations noStartVerdict). rule x = ''AVAIL-001'') \<and>
   v_projectedHours noStartVerdict = Some (v_weeklyHours noStartVerdict) \<and>
   \<not> (\<exists>x\<in>set (v_violations noStartVerdict). rule x = ''HOURS-001'')"
proof -
  let ?h = "utcHost availWeekCalendar []"
  have run: "validate ?h noStartRequest = Inr noStartVerdict"
    by code_simp
  have day: "h_getDayRange ?h (the (date noStartRequest)) = Some sat6"
    by code_simp
  have week: "getWeekRange ?h (dr_isoDate sat6) = Some (1704067200000, 1704671999999)"
    by code_simp
  have omitted: "\<not> (truthyStr (startTime noStartRequest) \<and> truthyStr (endTime noStartRequest))"
    by code_simp
  have cap: "\<not> weeklyHoursOf (v_employeeId noStartVerdict)
                 (weekCalOf ?h (1704067200000, 1704671999999)) > MAX_WEEKLY_HOURS"
    by code_simp
  show ?thesis
    using run cap validate_without_times [OF run day week omitted] by simp
qed

section \<open>The cross-location gate\<close>




section \<open>Rejected requests\<close>




section \<open>Candidates of the coverage finder\<close>

lemma set_insertBy: "set (insertBy cmp x xs) = insert x (set xs)"
  by (induction xs) auto


lemma findCoverage_Inr:
  "findCoverage h d n = Inr res \<Longrightarrow>
     \<exists>r. h_getDayRange h d = Some r \<and>
         r_candidates res =
           sortBy candidateOrder
             (unsortedCandidates h (coverWeekData h (dr_start r)) (coverStreakData h (dr_start r))
                (r_shiftToCover res) (dr_start r))"
  by (auto simp: findCoverage_def Let_def split: option.splits list.splits)












section \<open>The weekly cap\<close>



section \<open>Ranking of the candidates\<close>

lemma before_iff:
  "before a b =
     (if c_available a then (c_available b \<longrightarrow> c_projectedHours a \<le> c_projectedHours b)
      else \<not> c_available b)"
  by (simp add: before_def candidateOrder_def)

lemma before_total: "\<not> before a b \<Longrightarrow> before b a"
  by (auto simp: before_iff split: if_splits)

lemma before_trans: "before a b \<Longrightarrow> before b c \<Longrightarrow> before a c"
  by (auto simp: before_iff split: if_splits)

lemma sorted_insertBy:
  "sorted_wrt before xs \<Longrightarrow> sorted_wrt before (insertBy candidateOrder x xs)"
proof (induction xs)
  case Nil
  then show ?case by simp
next
  case (Cons y ys)
  show ?case
  proof (cases "candidateOrder x y \<le> 0")
    case True
    then have xy: "before x y" by (simp add: before_def)
    have "\<forall>z\<in>set ys. before x z" using Cons.prems xy before_trans by auto
    then show ?thesis using True Cons.prems xy by simp
  next
    case False
    then have yx: "before y x" using before_total by (simp add: before_def)
    show ?thesis using False Cons yx by (auto simp: set_insertBy)
  qed
qed

lemma sorted_sortBy: "sorted_wrt before (sortBy candidateOrder xs)"
  by (induction xs) (simp_all add: sortBy_def sorted_insertBy)

lemma eligible_first:
  "sorted_wrt before cs \<Longrightarrow>
     cs = filter c_available cs @ filter (\<lambda>c. \<not> c_available c) cs"
proof (induction cs)
  case Nil
  then show ?case by simp
next
  case (Cons c cs)
  show ?case
  proof (cases "c_available c")
    case True
    then show ?thesis using Cons by simp
  next
    case False
    then have "\<forall>z\<in>set cs. \<not> c_available z" using Cons.prems by (auto simp: before_iff)
    then have "filter c_available cs = []" "filter (\<lambda>c. \<not> c_available c) cs = cs"
      by (simp_all add: filter_empty_conv)
    then show ?thesis using False by simp
  qed
qed

lemma eligible_ascending:
  "sorted_wrt before cs \<Longrightarrow> sorted (map c_projectedHours (filter c_available cs))"
proof (induction cs)
  case Nil
  then show ?case by simp
next
  case (Cons c cs)
  then show ?case by (auto simp: before_iff)
qed

text \<open>
  Claim C6. The candidate list that \<^verbatim>\<open>findCoverage\<close> returns is its eligible candidates
  followed by its ineligible ones, whatever their hours, and the eligible ones stand in
  ascending order of projected weekly hours.
\<close>

theorem candidates_ranked:
  assumes "findCoverage h d n = Inr res"
  shows "r_candidates res =
           filter c_available (r_candidates res)
           @ filter (\<lambda>c. \<not> c_available c) (r_candidates res)
         \<and> sorted (map c_projectedHours (filter c_available (r_candidates res)))"
proof -
  obtain r :: dayRange where "r_candidates res =
           sortBy candidateOrder
             (unsortedCandidates h (coverWeekData h (dr_start r)) (coverStreakData h (dr_start r))
                (r_shiftToCover res) (dr_start r))"
    using findCoverage_Inr [OF assms] by blast
  then have "sorted_wrt before (r_candidates res)" by (simp add: sorted_sortBy)
  then show ?thesis using eligible_first eligible_ascending by blast
qed

theorem candidates_ranked_witness:
  "findCoverage (utcHost rankCalendar rankStaff) ''2024-01-06'' (Some ''david'')
     = Inr rankedCoverage \<and>
   r_candidates rankedCoverage = [saraAt9, haydenAt40, emilyOverlapping] \<and>
   filter c_available (r_candidates rankedCoverage) = [saraAt9, haydenAt40] \<and>
   sorted (map c_projectedHours (filter c_available (r_candidates rankedCoverage)))"
proof -
  have run: "findCoverage (utcHost rankCalendar rankStaff) ''2024-01-06'' (Some ''david'')
               = Inr rankedCoverage"
    by code_simp
  have el: "filter c_available (r_candidates rankedCoverage) = [saraAt9, haydenAt40]"
    by code_simp
  show ?thesis
    using run el candidates_ranked [OF run] by (simp add: rankedCoverage_def)
qed

section \<open>No availability on record\<close>





section \<open>How containment is compared\<close>






section \<open>Shift templates and their matches\<close>































end
